theory Spec2Isabelle
  imports Main "HOL-Library.Multiset" "HOL-Library.AList" "HOL-Library.Char_ord"
    "HOL-Library.List_Lexorder"
begin

section \<open>Time values and calendar dates of the JavaScript runtime\<close>

text \<open>
  \<^verbatim>\<open>src/src/App.js\<close> computes with \<^verbatim>\<open>Date\<close> objects. A \<^verbatim>\<open>Date\<close> holds a time value: the
  number of milliseconds since 1970-01-01T00:00:00Z. The model keeps that number as an
  \<open>int\<close>. Only valid dates are modelled (no \<^verbatim>\<open>Invalid Date\<close>, no clipping at the ends of
  the representable range).

  A date string \<^verbatim>\<open>'YYYY-MM-DD'\<close> (the fields \<^verbatim>\<open>date\<close>, \<^verbatim>\<open>recurrenceStartDate\<close>,
  \<^verbatim>\<open>recurrenceEndDate\<close>, the keys of \<^verbatim>\<open>monthlyScheduleData\<close>) is represented by the day
  number of the date it denotes, counted from 1970-01-01. Two well-formed date strings
  are equal exactly when their day numbers are, so \<^verbatim>\<open>===\<close> on them is \<open>=\<close> on day numbers.

  The local time zone of the runtime is the parameter \<open>tza\<close>: the offset of local time
  from UTC in milliseconds, constant over time (a zone without daylight saving changes,
  such as UTC, Asia/Tokyo or Asia/Kolkata of the program's own \<^verbatim>\<open>timeZones\<close> list).
\<close>

type_synonym time_value = int
type_synonym iso_date = int

definition msPerDay :: int where
  "msPerDay = 86400000"

definition Day :: "time_value \<Rightarrow> int" where
  "Day t = t div msPerDay"

definition TimeWithinDay :: "time_value \<Rightarrow> int" where
  "TimeWithinDay t = t mod msPerDay"

definition WeekDay :: "time_value \<Rightarrow> int" where
  "WeekDay t = (Day t + 4) mod 7"

text \<open>
  Day number of the proleptic Gregorian date \<open>y\<close>-\<open>m\<close>-\<open>d\<close> (\<open>m\<close> from 1 to 12), and back.
  Years are counted from 1 March, in cycles of 400 years (146097 days), centuries
  (36524 days), four years (1461 days) and years (365 days).
\<close>

definition days_from_civil :: "int \<Rightarrow> int \<Rightarrow> int \<Rightarrow> int" where
  "days_from_civil y m d =
     (let y' = (if m \<le> 2 then y - 1 else y);
          era = y' div 400;
          yoe = y' mod 400;
          mp = (if m > 2 then m - 3 else m + 9);
          doy = (153 * mp + 2) div 5 + d - 1;
          doe = yoe * 365 + yoe div 4 - yoe div 100 + doy
      in era * 146097 + doe - 719468)"

definition civil_from_days :: "int \<Rightarrow> int \<times> int \<times> int" where
  "civil_from_days z =
     (let z' = z + 719468;
          era = z' div 146097;
          d1 = z' mod 146097;
          n100 = min (d1 div 36524) 3;
          d2 = d1 - n100 * 36524;
          n4 = d2 div 1461;
          d3 = d2 mod 1461;
          n1 = min (d3 div 365) 3;
          doy = d3 - n1 * 365;
          yoe = n100 * 100 + n4 * 4 + n1;
          mp = (5 * doy + 2) div 153;
          d = doy - (153 * mp + 2) div 5 + 1;
          m = (if mp < 10 then mp + 3 else mp - 9);
          y = yoe + era * 400 + (if m \<le> 2 then 1 else 0)
      in (y, m, d))"

definition YearFromTime :: "time_value \<Rightarrow> int" where
  "YearFromTime t = (case civil_from_days (Day t) of (y, m, d) \<Rightarrow> y)"

text \<open>Months are numbered from 0 (January) to 11, as \<^verbatim>\<open>getMonth\<close> returns them.\<close>

definition MonthFromTime :: "time_value \<Rightarrow> int" where
  "MonthFromTime t = (case civil_from_days (Day t) of (y, m, d) \<Rightarrow> m - 1)"

definition DateFromTime :: "time_value \<Rightarrow> int" where
  "DateFromTime t = (case civil_from_days (Day t) of (y, m, d) \<Rightarrow> d)"

text \<open>
  \<^verbatim>\<open>MakeDay\<close> accepts a month outside 0..11 and a day outside the month and carries them
  over: \<^verbatim>\<open>new Date(y, m + 1, 0)\<close> is the last day of month \<open>m\<close>.
\<close>

definition MakeDay :: "int \<Rightarrow> int \<Rightarrow> int \<Rightarrow> int" where
  "MakeDay year month dt = days_from_civil (year + month div 12) (month mod 12 + 1) 1 + dt - 1"

definition LocalTime :: "int \<Rightarrow> time_value \<Rightarrow> int" where
  "LocalTime tza t = t + tza"

definition UTC :: "int \<Rightarrow> int \<Rightarrow> time_value" where
  "UTC tza t = t - tza"

definition getFullYear :: "int \<Rightarrow> time_value \<Rightarrow> int" where
  "getFullYear tza t = YearFromTime (LocalTime tza t)"

definition getMonth :: "int \<Rightarrow> time_value \<Rightarrow> int" where
  "getMonth tza t = MonthFromTime (LocalTime tza t)"

definition getDate :: "int \<Rightarrow> time_value \<Rightarrow> int" where
  "getDate tza t = DateFromTime (LocalTime tza t)"

definition getDay :: "int \<Rightarrow> time_value \<Rightarrow> int" where
  "getDay tza t = WeekDay (LocalTime tza t)"

text \<open>
  \<^verbatim>\<open>new Date(year, month, date)\<close>: local midnight of that day. A year from 0 to 99 stands
  for 1900 + year.
\<close>

definition Date_ymd :: "int \<Rightarrow> int \<Rightarrow> int \<Rightarrow> int \<Rightarrow> time_value" where
  "Date_ymd tza year month dt =
     UTC tza (MakeDay (if 0 \<le> year \<and> year \<le> 99 then 1900 + year else year) month dt * msPerDay)"

text \<open>\<^verbatim>\<open>new Date('YYYY-MM-DD')\<close>: a date-only string is read as midnight UTC.\<close>

definition Date_parse :: "iso_date \<Rightarrow> time_value" where
  "Date_parse s = s * msPerDay"

text \<open>\<^verbatim>\<open>d.toISOString().split('T')[0]\<close>: the UTC calendar date of the time value.\<close>

definition toISODate :: "time_value \<Rightarrow> iso_date" where
  "toISODate t = Day t"

text \<open>\<^verbatim>\<open>d.setDate(dt)\<close>: the day of the month is replaced, in local time.\<close>

definition setDate :: "int \<Rightarrow> time_value \<Rightarrow> int \<Rightarrow> time_value" where
  "setDate tza t dt =
     (let lt = LocalTime tza t
      in UTC tza (MakeDay (YearFromTime lt) (MonthFromTime lt) dt * msPerDay + TimeWithinDay lt))"

text \<open>
  A relational comparison of a \<^verbatim>\<open>Date\<close> with \<^verbatim>\<open>null\<close> converts \<^verbatim>\<open>null\<close> to the number 0.
\<close>

definition ToNumber :: "time_value option \<Rightarrow> int" where
  "ToNumber v = (case v of None \<Rightarrow> 0 | Some t \<Rightarrow> t)"

section \<open>Schedule entries\<close>

text \<open>
  A document of the \<^verbatim>\<open>schedules\<close> collection, with the fields that
  \<^verbatim>\<open>handleAddScheduleEntry\<close> stores. \<^verbatim>\<open>startDateTimeUTC\<close>, \<^verbatim>\<open>endDateTimeUTC\<close> and
  \<^verbatim>\<open>createdAt\<close> are ISO instants, kept as time values. A field that is \<^verbatim>\<open>null\<close>, empty or
  missing in the stored document is \<open>None\<close>. An entry read from a snapshot is the document
  with its identifier: \<^verbatim>\<open>{ id: doc.id, ...doc.data() }\<close>.
\<close>

record schedule_doc =
  date :: iso_date
  startDateTimeUTC :: time_value
  endDateTimeUTC :: time_value
  activityId :: string
  activityName :: string
  activityColor :: string
  userId :: string
  recurrenceType :: string
  recurrenceDays :: "int list option"
  recurrenceStartDate :: "iso_date option"
  recurrenceEndDate :: "iso_date option"
  createdAt :: time_value

record entry = schedule_doc +
  entry_id :: string

datatype js_error = TypeError

section \<open>The snapshot callback of the main view\<close>

definition entryStartDate :: "entry \<Rightarrow> time_value option" where
  "entryStartDate entry = map_option Date_parse (recurrenceStartDate entry)"

definition entryEndDate :: "entry \<Rightarrow> time_value option" where
  "entryEndDate entry = map_option Date_parse (recurrenceEndDate entry)"

definition dateOnly :: "int \<Rightarrow> time_value \<Rightarrow> time_value" where
  "dateOnly tza dateToCheck =
     Date_ymd tza (getFullYear tza dateToCheck) (getMonth tza dateToCheck) (getDate tza dateToCheck)"

definition isDateWithinRecurrenceRange :: "int \<Rightarrow> entry \<Rightarrow> time_value \<Rightarrow> bool" where
  "isDateWithinRecurrenceRange tza entry dateToCheck =
     ((case entryStartDate entry of None \<Rightarrow> True | Some s \<Rightarrow> dateOnly tza dateToCheck \<ge> s) \<and>
      (case entryEndDate entry of None \<Rightarrow> True | Some e \<Rightarrow> dateOnly tza dateToCheck \<le> e))"

definition currentMonthStartDate :: "int \<Rightarrow> time_value \<Rightarrow> time_value" where
  "currentMonthStartDate tza currentMonth =
     Date_ymd tza (getFullYear tza currentMonth) (getMonth tza currentMonth) 1"

definition currentMonthEndDate :: "int \<Rightarrow> time_value \<Rightarrow> time_value" where
  "currentMonthEndDate tza currentMonth =
     Date_ymd tza (getFullYear tza currentMonth) (getMonth tza currentMonth + 1) 0"

text \<open>
  \<^verbatim>\<open>isRelevantForMonth\<close>, with the grouping that the operator precedence gives: \<^verbatim>\<open>&&\<close>
  binds tighter than \<^verbatim>\<open>||\<close>, so the test on the recurrence type guards only the first of
  the three alternatives for recurring entries.
\<close>

definition isRelevantForMonth :: "int \<Rightarrow> entry \<Rightarrow> time_value \<Rightarrow> bool" where
  "isRelevantForMonth tza entry currentMonth =
     ((recurrenceType entry = ''none'' \<and>
       getMonth tza (Date_parse (date entry)) = getMonth tza currentMonth \<and>
       getFullYear tza (Date_parse (date entry)) = getFullYear tza currentMonth) \<or>
      ((recurrenceType entry \<noteq> ''none'' \<and>
        isDateWithinRecurrenceRange tza entry (currentMonthStartDate tza currentMonth)) \<or>
       isDateWithinRecurrenceRange tza entry (currentMonthEndDate tza currentMonth) \<or>
       (currentMonthStartDate tza currentMonth \<ge> ToNumber (entryStartDate entry) \<and>
        currentMonthEndDate tza currentMonth \<le> ToNumber (entryEndDate entry))))"

text \<open>
  The test of the loop over the days of the month. \<^verbatim>\<open>entry.recurrenceDays.includes(...)\<close>
  has no guard here: on an entry without the field it throws a \<^verbatim>\<open>TypeError\<close>. The
  operators short-circuit, so the call is reached only for a \<^verbatim>\<open>'weekly'\<close> entry on a day
  within its range.
\<close>

definition dayHasActivity :: "int \<Rightarrow> entry \<Rightarrow> time_value \<Rightarrow> js_error + bool" where
  "dayHasActivity tza entry tempDate =
     (if isDateWithinRecurrenceRange tza entry tempDate then
        (if recurrenceType entry = ''daily'' then Inr True
         else if recurrenceType entry = ''weekly'' then
           (case recurrenceDays entry of
              None \<Rightarrow> Inl TypeError
            | Some ds \<Rightarrow> Inr (getDay tza tempDate \<in> set ds))
         else Inr False)
      else Inr False)"

text \<open>
  Going to the calendar date of a day number and back gives the day number again. The
  loop over the days of a month relies on it: \<^verbatim>\<open>tempDate.setDate(tempDate.getDate() + 1)\<close>
  moves to the next day.
\<close>

lemma civil_from_days_inverse:
  assumes "civil_from_days z = (y, m, d)"
  shows "1 \<le> m \<and> m \<le> 12 \<and> days_from_civil y m d = z \<and> (0 \<le> z \<longrightarrow> 1600 \<le> y)"
proof -
  define z' where "z' = z + 719468"
  define era where "era = z' div 146097"
  define d1 where "d1 = z' mod 146097"
  define n100 where "n100 = min (d1 div 36524) 3"
  define d2 where "d2 = d1 - n100 * 36524"
  define n4 where "n4 = d2 div 1461"
  define d3 where "d3 = d2 mod 1461"
  define n1 where "n1 = min (d3 div 365) 3"
  define doy where "doy = d3 - n1 * 365"
  define yoe where "yoe = n100 * 100 + n4 * 4 + n1"
  define mp where "mp = (5 * doy + 2) div 153"
  define d0 where "d0 = doy - (153 * mp + 2) div 5 + 1"
  define m0 where "m0 = (if mp < 10 then mp + 3 else mp - 9)"
  define y0 where "y0 = yoe + era * 400 + (if m0 \<le> 2 then 1 else 0)"
  have "civil_from_days z = (y0, m0, d0)"
    unfolding civil_from_days_def Let_def y0_def m0_def d0_def mp_def yoe_def doy_def n1_def
      d3_def n4_def d2_def n100_def d1_def era_def z'_def ..
  with assms have same: "y = y0" "m = m0" "d = d0"
    by simp_all
  have d1: "0 \<le> d1" "d1 < 146097"
    unfolding d1_def by simp_all
  have n100: "0 \<le> n100" "n100 \<le> 3"
    using d1 unfolding n100_def by simp_all
  have d2: "0 \<le> d2" "d2 \<le> 36524"
    using d1 unfolding d2_def n100_def by arith+
  have n4: "0 \<le> n4" "n4 \<le> 24"
    using d2 unfolding n4_def by arith+
  have d3: "0 \<le> d3" "d3 < 1461"
    unfolding d3_def by simp_all
  have d2_eq: "d2 = 1461 * n4 + d3"
    unfolding n4_def d3_def by simp
  have n1: "0 \<le> n1" "n1 \<le> 3"
    using d3 unfolding n1_def by simp_all
  have doy: "0 \<le> doy" "doy \<le> 365"
    using d3 unfolding doy_def n1_def by arith+
  have yoe: "0 \<le> yoe" "yoe < 400"
    using n100 n4 n1 unfolding yoe_def by simp_all
  have y4: "yoe div 4 = 25 * n100 + n4"
    using n1 unfolding yoe_def by arith
  have y100: "yoe div 100 = n100"
    using n1 n4 unfolding yoe_def by arith
  have mp: "0 \<le> mp" "mp \<le> 11"
    using doy unfolding mp_def by arith+
  have m0: "1 \<le> m0" "m0 \<le> 12"
    using mp unfolding m0_def by auto
  have m3: "(if m0 > 2 then m0 - 3 else m0 + 9) = mp"
    using mp unfolding m0_def by auto
  have y': "(if m0 \<le> 2 then y0 - 1 else y0) = yoe + era * 400"
    unfolding y0_def by simp
  have era': "(yoe + era * 400) div 400 = era"
    using yoe by simp
  have yoe': "(yoe + era * 400) mod 400 = yoe"
    using yoe by simp
  have doe: "yoe * 365 + yoe div 4 - yoe div 100 + ((153 * mp + 2) div 5 + d0 - 1) = d1"
    unfolding y4 y100 unfolding d0_def doy_def yoe_def using d2_eq unfolding d2_def by simp
  have "days_from_civil y0 m0 d0 = era * 146097 + d1 - 719468"
    unfolding days_from_civil_def Let_def m3 y' era' yoe' doe ..
  also have "\<dots> = z"
    unfolding era_def d1_def z'_def by simp
  finally have inv: "days_from_civil y0 m0 d0 = z" .
  have "1600 \<le> y0" if "0 \<le> z"
  proof -
    from that have "4 \<le> era"
      unfolding era_def z'_def by arith
    with yoe show ?thesis
      unfolding y0_def by simp
  qed
  with inv m0 same show ?thesis
    by simp
qed

lemma days_from_civil_shift:
  "days_from_civil y m (d + k) = days_from_civil y m d + k"
  by (simp add: days_from_civil_def Let_def)

lemma MakeDay_of_time:
  "MakeDay (YearFromTime t) (MonthFromTime t) (DateFromTime t + k) = Day t + k"
proof -
  obtain y m d where c: "civil_from_days (Day t) = (y, m, d)"
    by (cases "civil_from_days (Day t)") auto
  from civil_from_days_inverse [OF c]
  have m: "1 \<le> m" "m \<le> 12" and inv: "days_from_civil y m d = Day t"
    by simp_all
  have "(m - 1) div 12 = 0" "(m - 1) mod 12 + 1 = m"
    using m by simp_all
  then have "MakeDay y (m - 1) (d + k) = days_from_civil y m 1 + (d + k) - 1"
    by (simp add: MakeDay_def)
  also have "\<dots> = days_from_civil y m (1 + (d - 1)) + k"
    unfolding days_from_civil_shift by simp
  also have "\<dots> = Day t + k"
    using inv by simp
  finally show ?thesis
    by (simp add: YearFromTime_def MonthFromTime_def DateFromTime_def c)
qed

lemma setDate_next:
  "setDate tza t (getDate tza t + 1) = t + msPerDay"
proof -
  have "Day (t + tza) * msPerDay + TimeWithinDay (t + tza) = t + tza"
    by (simp add: Day_def TimeWithinDay_def)
  then have "(Day (t + tza) + 1) * msPerDay + TimeWithinDay (t + tza) - tza = t + msPerDay"
    by (simp add: algebra_simps)
  then show ?thesis
    by (simp add: setDate_def getDate_def LocalTime_def UTC_def Let_def MakeDay_of_time)
qed

text \<open>
  \<^verbatim>\<open>datesWithActivities\<close> is a \<^verbatim>\<open>Map\<close> from date strings to colours. It is modelled as the
  list of its key-value pairs in insertion order; \<^verbatim>\<open>set(k, v)\<close> is \<open>AList.update k v\<close>, which
  replaces the value of a key that is present and appends a new key otherwise.

  The loop \<^verbatim>\<open>while (tempDate <= currentMonthEndDate)\<close> of a recurring entry: every day that
  passes the test gets the entry's colour under the key of its ISO date string. A
  \<^verbatim>\<open>TypeError\<close> leaves the loop at once.
\<close>

function populate ::
  "int \<Rightarrow> entry \<Rightarrow> time_value \<Rightarrow> time_value \<Rightarrow> (iso_date \<times> string) list
     \<Rightarrow> js_error + (iso_date \<times> string) list" where
  "populate tza entry monthEnd tempDate datesWithActivities =
     (if tempDate \<le> monthEnd then
        (case dayHasActivity tza entry tempDate of
           Inl err \<Rightarrow> Inl err
         | Inr hit \<Rightarrow>
             populate tza entry monthEnd (setDate tza tempDate (getDate tza tempDate + 1))
               (if hit then AList.update (toISODate tempDate) (activityColor entry) datesWithActivities
                else datesWithActivities))
      else Inr datesWithActivities)"
  by pat_completeness auto
termination
  by (relation "measure (\<lambda>(tza, entry, monthEnd, tempDate, m). nat (monthEnd - tempDate + 1))")
    (auto simp: setDate_next msPerDay_def)

text \<open>The part of the \<^verbatim>\<open>forEach\<close> callback that fills \<^verbatim>\<open>datesWithActivities\<close>.\<close>

definition populateMonth ::
  "int \<Rightarrow> time_value \<Rightarrow> entry \<Rightarrow> (iso_date \<times> string) list \<Rightarrow> js_error + (iso_date \<times> string) list" where
  "populateMonth tza currentMonth entry datesWithActivities =
     (if isRelevantForMonth tza entry currentMonth then
        (if recurrenceType entry = ''none'' then
           (if getMonth tza (Date_parse (date entry)) = getMonth tza currentMonth \<and>
               getFullYear tza (Date_parse (date entry)) = getFullYear tza currentMonth
            then Inr (AList.update (date entry) (activityColor entry) datesWithActivities)
            else Inr datesWithActivities)
         else populate tza entry (currentMonthEndDate tza currentMonth)
                (currentMonthStartDate tza currentMonth) datesWithActivities)
      else Inr datesWithActivities)"

text \<open>The part of the callback that selects the entries of the selected date.\<close>

definition isOneTime :: "entry \<Rightarrow> iso_date \<Rightarrow> bool" where
  "isOneTime entry selectedDateString =
     (recurrenceType entry = ''none'' \<and> date entry = selectedDateString)"

definition isDailyRecurring :: "entry \<Rightarrow> bool" where
  "isDailyRecurring entry = (recurrenceType entry = ''daily'')"

definition isWeeklyRecurring :: "entry \<Rightarrow> int \<Rightarrow> bool" where
  "isWeeklyRecurring entry selectedDayOfWeek =
     (recurrenceType entry = ''weekly'' \<and>
      (case recurrenceDays entry of None \<Rightarrow> False | Some ds \<Rightarrow> selectedDayOfWeek \<in> set ds))"

definition isForSelectedDate :: "int \<Rightarrow> time_value \<Rightarrow> entry \<Rightarrow> bool" where
  "isForSelectedDate tza selectedDate entry =
     (if isDateWithinRecurrenceRange tza entry selectedDate then
        isOneTime entry (toISODate selectedDate) \<or> isDailyRecurring entry \<or>
        isWeeklyRecurring entry (getDay tza selectedDate)
      else False)"

text \<open>
  The state that the \<^verbatim>\<open>forEach\<close> over \<^verbatim>\<open>allEntries\<close> builds, the callback for one entry, and
  the iteration. An exception thrown for one entry ends the iteration: the entries after
  it are not visited.
\<close>

record aggregate =
  datesWithActivities :: "(iso_date \<times> string) list"
  entriesForSelectedDate :: "entry list"

definition forEachEntry ::
  "int \<Rightarrow> time_value \<Rightarrow> time_value \<Rightarrow> entry \<Rightarrow> aggregate \<Rightarrow> js_error + aggregate" where
  "forEachEntry tza currentMonth selectedDate entry acc =
     (case populateMonth tza currentMonth entry (datesWithActivities acc) of
        Inl err \<Rightarrow> Inl err
      | Inr dwa \<Rightarrow>
          Inr \<lparr>datesWithActivities = dwa,
               entriesForSelectedDate =
                 (if isForSelectedDate tza selectedDate entry
                  then entriesForSelectedDate acc @ [entry]
                  else entriesForSelectedDate acc)\<rparr>)"

fun forEach ::
  "int \<Rightarrow> time_value \<Rightarrow> time_value \<Rightarrow> entry list \<Rightarrow> aggregate \<Rightarrow> js_error + aggregate" where
  "forEach tza currentMonth selectedDate [] acc = Inr acc"
| "forEach tza currentMonth selectedDate (entry # rest) acc =
     (case forEachEntry tza currentMonth selectedDate entry acc of
        Inl err \<Rightarrow> Inl err
      | Inr acc' \<Rightarrow> forEach tza currentMonth selectedDate rest acc')"

text \<open>
  \<^verbatim>\<open>Array.prototype.sort\<close> with the comparator \<^verbatim>\<open>timeA - timeB\<close> on the start instants. The
  sort of the language is stable; \<open>sort_key\<close> is the stable sort by a key.
\<close>

definition sortByStart :: "entry list \<Rightarrow> entry list" where
  "sortByStart entries = sort_key startDateTimeUTC entries"

text \<open>
  The snapshot callback: on success the two state updates \<^verbatim>\<open>setMonthlyScheduleData\<close> and
  \<^verbatim>\<open>setScheduleEntries\<close>; after an exception neither of them happens.
\<close>

record snapshot_result =
  monthlyScheduleData :: "(iso_date \<times> string) list"
  scheduleEntries :: "entry list"

definition onSnapshot ::
  "int \<Rightarrow> time_value \<Rightarrow> time_value \<Rightarrow> entry list \<Rightarrow> js_error + snapshot_result" where
  "onSnapshot tza currentMonth selectedDate allEntries =
     (case forEach tza currentMonth selectedDate allEntries
             \<lparr>datesWithActivities = [], entriesForSelectedDate = []\<rparr> of
        Inl err \<Rightarrow> Inl err
      | Inr acc \<Rightarrow>
          Inr \<lparr>monthlyScheduleData = datesWithActivities acc,
               scheduleEntries = sortByStart (entriesForSelectedDate acc)\<rparr>)"

section \<open>The snapshot callback of the shared view\<close>

definition selectedDateOnly :: "int \<Rightarrow> time_value \<Rightarrow> time_value" where
  "selectedDateOnly tza sharedDate =
     Date_ymd tza (getFullYear tza sharedDate) (getMonth tza sharedDate) (getDate tza sharedDate)"

definition isWithinRecurrenceRange :: "int \<Rightarrow> time_value \<Rightarrow> entry \<Rightarrow> bool" where
  "isWithinRecurrenceRange tza sharedDate entry =
     ((case entryStartDate entry of None \<Rightarrow> True | Some s \<Rightarrow> selectedDateOnly tza sharedDate \<ge> s) \<and>
      (case entryEndDate entry of None \<Rightarrow> True | Some e \<Rightarrow> selectedDateOnly tza sharedDate \<le> e))"

definition sharedFilter :: "int \<Rightarrow> time_value \<Rightarrow> entry \<Rightarrow> bool" where
  "sharedFilter tza sharedDate entry =
     (if \<not> isWithinRecurrenceRange tza sharedDate entry then False
      else isOneTime entry (toISODate sharedDate) \<or> isDailyRecurring entry \<or>
           isWeeklyRecurring entry (getDay tza sharedDate))"

definition filteredEntries :: "int \<Rightarrow> time_value \<Rightarrow> entry list \<Rightarrow> entry list" where
  "filteredEntries tza sharedDate allEntries =
     sortByStart (filter (sharedFilter tza sharedDate) allEntries)"

section \<open>Creating a schedule entry\<close>

text \<open>
  The inputs of \<^verbatim>\<open>handleAddScheduleEntry\<close>. The time inputs \<^verbatim>\<open>'HH:MM'\<close> are kept as minutes
  after midnight, the date inputs as day numbers; an empty input is \<open>None\<close>.
\<close>

record activity_item =
  item_id :: string
  name :: string
  color :: string

record form =
  newScheduleActivityId :: string
  newScheduleStartTime :: "int option"
  newScheduleEndTime :: "int option"
  newScheduleRecurrenceType :: string
  newScheduleRecurrenceDays :: "int list"
  newScheduleRecurrenceStartDate :: "iso_date option"
  newScheduleRecurrenceEndDate :: "iso_date option"
  activityItems :: "activity_item list"

text \<open>
  \<^verbatim>\<open>new Date(`${dateString}T${time}:00`)\<close>: a date with a time and no zone is read as local
  time.
\<close>

definition Date_parse_local :: "int \<Rightarrow> iso_date \<Rightarrow> int \<Rightarrow> time_value" where
  "Date_parse_local tza s minutes = UTC tza (s * msPerDay + minutes * 60000)"

text \<open>The checks on the recurrence inputs; \<open>Some\<close> is the message given to \<^verbatim>\<open>setError\<close>.\<close>

definition recurrenceError :: "form \<Rightarrow> string option" where
  "recurrenceError f =
     (if newScheduleRecurrenceType f \<noteq> ''none'' then
        (case newScheduleRecurrenceStartDate f of
           None \<Rightarrow> Some ''Please provide a start date for the repeating schedule.''
         | Some s \<Rightarrow>
             if (case newScheduleRecurrenceEndDate f of
                   None \<Rightarrow> False
                 | Some e \<Rightarrow> Date_parse s > Date_parse e)
             then Some ''Recurrence end date cannot be before start date.''
             else if newScheduleRecurrenceType f = ''weekly'' \<and> length (newScheduleRecurrenceDays f) = 0
             then Some ''Please select at least one day for weekly recurrence.''
             else None)
      else None)"

text \<open>The document handed to \<^verbatim>\<open>addDoc\<close>.\<close>

definition newDoc ::
  "int \<Rightarrow> time_value \<Rightarrow> string \<Rightarrow> time_value \<Rightarrow> int \<Rightarrow> int \<Rightarrow> activity_item \<Rightarrow> form \<Rightarrow> schedule_doc" where
  "newDoc tza now uid selectedDate startTime endTime selectedActivity f =
     \<lparr>date = toISODate selectedDate,
      startDateTimeUTC = Date_parse_local tza (toISODate selectedDate) startTime,
      endDateTimeUTC = Date_parse_local tza (toISODate selectedDate) endTime,
      activityId = newScheduleActivityId f,
      activityName = name selectedActivity,
      activityColor = color selectedActivity,
      userId = uid,
      recurrenceType = newScheduleRecurrenceType f,
      recurrenceDays =
        Some (if newScheduleRecurrenceType f = ''weekly'' then newScheduleRecurrenceDays f else []),
      recurrenceStartDate =
        (if newScheduleRecurrenceType f \<noteq> ''none'' then newScheduleRecurrenceStartDate f else None),
      recurrenceEndDate =
        (if newScheduleRecurrenceType f \<noteq> ''none'' then newScheduleRecurrenceEndDate f else None),
      createdAt = now\<rparr>"

text \<open>
  The handler. \<open>Inl msg\<close>: \<^verbatim>\<open>setError(msg)\<close> and return, nothing is stored. \<open>Inr (Some doc)\<close>:
  \<^verbatim>\<open>addDoc\<close> is called with \<open>doc\<close>. \<open>Inr None\<close>: all checks passed but \<^verbatim>\<open>db && userId\<close> is
  false, and the handler does nothing. \<open>db\<close> tells whether the database handle is set, \<open>uid\<close>
  is the user id of the state (\<open>None\<close> for \<^verbatim>\<open>null\<close>), \<open>now\<close> the clock at the call.
\<close>

definition handleAddScheduleEntry ::
  "int \<Rightarrow> time_value \<Rightarrow> bool \<Rightarrow> string option \<Rightarrow> time_value option \<Rightarrow> form
     \<Rightarrow> string + schedule_doc option" where
  "handleAddScheduleEntry tza now db uid selectedDate f =
     (case (selectedDate, newScheduleStartTime f, newScheduleEndTime f) of
        (Some sel, Some startTime, Some endTime) \<Rightarrow>
          if newScheduleActivityId f = []
          then Inl ''Please select a date, activity, start time, and end time.''
          else if Date_parse_local tza (toISODate sel) startTime
                    \<ge> Date_parse_local tza (toISODate sel) endTime
          then Inl ''End time must be after start time.''
          else
            (case recurrenceError f of
               Some msg \<Rightarrow> Inl msg
             | None \<Rightarrow>
                 (case find (\<lambda>item. item_id item = newScheduleActivityId f) (activityItems f) of
                    None \<Rightarrow> Inl ''Selected activity not found.''
                  | Some selectedActivity \<Rightarrow>
                      (case uid of
                         None \<Rightarrow> Inr None
                       | Some u \<Rightarrow>
                           if db \<and> u \<noteq> []
                           then Inr (Some (newDoc tza now u sel startTime endTime selectedActivity f))
                           else Inr None)))
      | _ \<Rightarrow> Inl ''Please select a date, activity, start time, and end time.'')"

section \<open>Sample inputs\<close>

text \<open>
  An entry with the given identifier, recurrence type, date, start instant, weekdays and
  recurrence window; the other fields are fixed. It is used for the concrete inputs below.
\<close>

definition sampleEntry ::
  "string \<Rightarrow> string \<Rightarrow> iso_date \<Rightarrow> time_value \<Rightarrow> int list option \<Rightarrow> iso_date option
     \<Rightarrow> iso_date option \<Rightarrow> entry" where
  "sampleEntry i ty d start ds s e =
     \<lparr>date = d, startDateTimeUTC = start, endDateTimeUTC = start + 3600000,
      activityId = ''a1'', activityName = ''Gym'', activityColor = ''#ff0000'', userId = ''u1'',
      recurrenceType = ty, recurrenceDays = ds, recurrenceStartDate = s, recurrenceEndDate = e,
      createdAt = 0, entry_id = i\<rparr>"

text \<open>The offsets of Asia/Tokyo (UTC+9) and Pacific/Honolulu (UTC-10), zones without daylight saving time.\<close>

definition tokyo :: int where
  "tokyo = 9 * 3600000"

definition honolulu :: int where
  "honolulu = - 10 * 3600000"

section \<open>The calendar on known dates\<close>

text \<open>
  1970-01-01 is day 0 and a Thursday; 2000 and 2024 are leap years; \<^verbatim>\<open>new Date(2024, 2, 1)\<close>
  is 1709251200000 in UTC and nine hours earlier in Tokyo; the first and last days of a
  month, also for December and for February of a common year.
\<close>

lemma calendar_samples:
  "civil_from_days 0 = (1970, 1, 1) \<and>
   civil_from_days (days_from_civil 2000 2 29) = (2000, 2, 29) \<and>
   civil_from_days (days_from_civil 2000 2 29 + 1) = (2000, 3, 1) \<and>
   civil_from_days (days_from_civil 2023 12 31 + 1) = (2024, 1, 1) \<and>
   days_from_civil 2024 3 10 = 19792 \<and>
   WeekDay 0 = 4 \<and>
   Date_ymd 0 2024 2 1 = 1709251200000 \<and>
   Date_ymd tokyo 2024 2 1 = 1709251200000 - 9 * 3600000 \<and>
   currentMonthStartDate 0 (Date_ymd 0 2024 2 15) = Date_parse (days_from_civil 2024 3 1) \<and>
   currentMonthEndDate 0 (Date_ymd 0 2024 2 15) = Date_parse (days_from_civil 2024 3 31) \<and>
   currentMonthEndDate 0 (Date_ymd 0 2024 11 15) = Date_parse (days_from_civil 2024 12 31) \<and>
   currentMonthEndDate 0 (Date_ymd 0 2023 1 15) = Date_parse (days_from_civil 2023 2 28)"
  by code_simp

section \<open>The recurrence window test on calendar days\<close>

text \<open>
  For a time value \<open>t\<close> after the epoch, \<^verbatim>\<open>dateOnly\<close> is the instant of local midnight of
  the local calendar day of \<open>t\<close>, while the bounds of the window are the instants of UTC
  midnight of the start and end dates. The comparison of the two is a comparison of day
  numbers that depends on the sign of the zone offset.
\<close>

lemma YearFromTime_after_epoch:
  assumes "0 \<le> t"
  shows "1600 \<le> YearFromTime t"
proof -
  obtain y m d where c: "civil_from_days (Day t) = (y, m, d)"
    by (cases "civil_from_days (Day t)") auto
  have "0 \<le> Day t"
    using assms by (simp add: Day_def msPerDay_def)
  with civil_from_days_inverse [OF c] have "1600 \<le> y"
    by simp
  then show ?thesis
    by (simp add: YearFromTime_def c)
qed

lemma Date_ymd_of_time:
  assumes "0 \<le> t + tza"
  shows "Date_ymd tza (getFullYear tza t) (getMonth tza t) (getDate tza t) = Day (t + tza) * msPerDay - tza"
proof -
  define Y where "Y = YearFromTime (t + tza)"
  have "1600 \<le> Y"
    unfolding Y_def using assms by (rule YearFromTime_after_epoch)
  then have year: "(if 0 \<le> Y \<and> Y \<le> 99 then 1900 + Y else Y) = Y"
    by auto
  have "MakeDay Y (MonthFromTime (t + tza)) (DateFromTime (t + tza)) = Day (t + tza)"
    unfolding Y_def using MakeDay_of_time [of "t + tza" 0] by simp
  then show ?thesis
    unfolding Date_ymd_def getFullYear_def getMonth_def getDate_def LocalTime_def UTC_def
      Y_def [symmetric] year by simp
qed

lemma dateOnly_local_midnight:
  "0 \<le> t + tza \<Longrightarrow> dateOnly tza t = Day (t + tza) * msPerDay - tza"
  by (simp add: dateOnly_def Date_ymd_of_time)

lemma day_ge_iff:
  assumes "- msPerDay < tza" "tza < msPerDay"
  shows "s * msPerDay \<le> n * msPerDay - tza \<longleftrightarrow> (if 0 < tza then s < n else s \<le> n)"
proof -
  have "s * msPerDay \<le> n * msPerDay - tza \<longleftrightarrow> tza \<le> (n - s) * msPerDay"
    by (simp add: algebra_simps)
  also have "\<dots> \<longleftrightarrow> (if 0 < tza then 0 < n - s else 0 \<le> n - s)"
    using assms unfolding msPerDay_def by (cases "0 < n - s"; cases "n - s = 0") auto
  finally show ?thesis by simp
qed

lemma day_le_iff:
  assumes "- msPerDay < tza" "tza < msPerDay"
  shows "n * msPerDay - tza \<le> e * msPerDay \<longleftrightarrow> (if tza < 0 then n < e else n \<le> e)"
proof -
  have "n * msPerDay - tza \<le> e * msPerDay \<longleftrightarrow> - tza \<le> (e - n) * msPerDay"
    by (simp add: algebra_simps)
  also have "\<dots> \<longleftrightarrow> (if tza < 0 then 0 < e - n else 0 \<le> e - n)"
    using assms unfolding msPerDay_def by (cases "0 < e - n"; cases "e - n = 0") auto
  finally show ?thesis by simp
qed

lemma isDateWithinRecurrenceRange_iff:
  assumes "0 \<le> t + tza" "- msPerDay < tza" "tza < msPerDay"
  shows "isDateWithinRecurrenceRange tza entry t \<longleftrightarrow>
    (case recurrenceStartDate entry of None \<Rightarrow> True
     | Some s \<Rightarrow> if 0 < tza then s < Day (t + tza) else s \<le> Day (t + tza)) \<and>
    (case recurrenceEndDate entry of None \<Rightarrow> True
     | Some e \<Rightarrow> if tza < 0 then Day (t + tza) < e else Day (t + tza) \<le> e)"
  using assms
  by (simp add: isDateWithinRecurrenceRange_def entryStartDate_def entryEndDate_def Date_parse_def
      dateOnly_local_midnight day_ge_iff day_le_iff split: option.splits)

section \<open>The list of entries of a date\<close>

text \<open>
  The shared view applies the same test as the main view, and the list that the main view
  shows is the sorted list of the entries that pass it, whenever the callback completes.
\<close>

lemma isWithinRecurrenceRange_eq:
  "isWithinRecurrenceRange tza d entry = isDateWithinRecurrenceRange tza entry d"
  unfolding isWithinRecurrenceRange_def isDateWithinRecurrenceRange_def selectedDateOnly_def
    dateOnly_def ..

lemma sharedFilter_eq: "sharedFilter tza d entry = isForSelectedDate tza d entry"
  by (simp add: sharedFilter_def isForSelectedDate_def isWithinRecurrenceRange_eq)

lemma forEach_entriesForSelectedDate:
  "forEach tza currentMonth selectedDate allEntries acc = Inr acc' \<Longrightarrow>
     entriesForSelectedDate acc' =
       entriesForSelectedDate acc @ filter (isForSelectedDate tza selectedDate) allEntries"
proof (induction allEntries arbitrary: acc)
  case Nil
  then show ?case by simp
next
  case (Cons entry rest)
  from Cons.prems obtain mid where
    step: "forEachEntry tza currentMonth selectedDate entry acc = Inr mid" and
    rest: "forEach tza currentMonth selectedDate rest mid = Inr acc'"
    by (auto split: sum.splits)
  from step have "entriesForSelectedDate mid =
      entriesForSelectedDate acc @ filter (isForSelectedDate tza selectedDate) [entry]"
    by (auto simp: forEachEntry_def split: sum.splits)
  with Cons.IH [OF rest] show ?case
    by simp
qed

lemma onSnapshot_scheduleEntries:
  "onSnapshot tza currentMonth selectedDate allEntries = Inr r \<Longrightarrow>
     scheduleEntries r = sortByStart (filter (isForSelectedDate tza selectedDate) allEntries)"
  by (auto simp: onSnapshot_def split: sum.splits dest: forEach_entriesForSelectedDate)

lemma sorted_sortByStart: "sorted (map startDateTimeUTC (sortByStart entries))"
  by (simp add: sortByStart_def)

lemma sortByStart_stable:
  "filter (\<lambda>e. startDateTimeUTC e = k) (sortByStart entries) = filter (\<lambda>e. startDateTimeUTC e = k) entries"
  by (simp add: sortByStart_def sort_key_stable)

lemma mset_sortByStart: "mset (sortByStart entries) = mset entries"
  by (simp add: sortByStart_def)

lemma starts_sortByStart_perm:
  assumes "mset xs = mset ys"
  shows "map startDateTimeUTC (sortByStart xs) = map startDateTimeUTC (sortByStart ys)"
proof -
  have "mset (map startDateTimeUTC (sortByStart xs)) = mset (map startDateTimeUTC (sortByStart ys))"
    using assms by (simp add: mset_sortByStart)
  then have "sort (map startDateTimeUTC (sortByStart xs)) = sort (map startDateTimeUTC (sortByStart ys))"
    by (metis properties_for_sort sorted_sort mset_sort)
  then show ?thesis
    by (simp add: sorted_sortByStart sort_key_id_if_sorted)
qed

lemma short_list_mset_eq:
  assumes "mset xs = mset ys" "length xs \<le> 1"
  shows "xs = ys"
proof (cases xs)
  case Nil
  with assms show ?thesis by simp
next
  case (Cons x xs')
  with assms have "xs = [x]" by simp
  with assms show ?thesis by (metis mset_single_iff_right mset.simps(2) mset_zero_iff add_mset_eq_single)
qed

lemma distinct_key_filter_short:
  "distinct (map f xs) \<Longrightarrow> length (filter (\<lambda>x. f k = f x) xs) \<le> 1"
proof (induction xs)
  case Nil
  then show ?case by simp
next
  case (Cons a xs)
  show ?case
  proof (cases "f k = f a")
    case True
    with Cons.prems have "filter (\<lambda>x. f k = f x) xs = []"
      by (auto simp: filter_empty_conv)
    with True show ?thesis by simp
  next
    case False
    with Cons show ?thesis by simp
  qed
qed

lemma sortByStart_perm_distinct:
  assumes "mset xs = mset ys" "distinct (map startDateTimeUTC xs)"
  shows "sortByStart ys = sortByStart xs"
  unfolding sortByStart_def
proof (rule properties_for_sort_key)
  show "mset (sort_key startDateTimeUTC xs) = mset ys"
    using assms by simp
  show "sorted (map startDateTimeUTC (sort_key startDateTimeUTC xs))"
    by simp
  fix k
  assume "k \<in> set (sort_key startDateTimeUTC xs)"
  have "filter (\<lambda>x. startDateTimeUTC k = startDateTimeUTC x) (sort_key startDateTimeUTC xs) =
        filter (\<lambda>x. startDateTimeUTC k = startDateTimeUTC x) xs"
    using sort_key_stable [of startDateTimeUTC "startDateTimeUTC k" xs] by (simp add: eq_commute)
  also have "\<dots> = filter (\<lambda>x. startDateTimeUTC k = startDateTimeUTC x) ys"
  proof (rule short_list_mset_eq)
    show "mset (filter (\<lambda>x. startDateTimeUTC k = startDateTimeUTC x) xs) =
          mset (filter (\<lambda>x. startDateTimeUTC k = startDateTimeUTC x) ys)"
      using assms(1) by simp
    show "length (filter (\<lambda>x. startDateTimeUTC k = startDateTimeUTC x) xs) \<le> 1"
      using assms(2) by (rule distinct_key_filter_short)
  qed
  finally show "filter (\<lambda>x. startDateTimeUTC k = startDateTimeUTC x) (sort_key startDateTimeUTC xs) =
        filter (\<lambda>x. startDateTimeUTC k = startDateTimeUTC x) ys" .
qed

section \<open>Order of the list of a date (C2, C3)\<close>

text \<open>
  Four one-time entries on 2024-03-10: two with the same start instant 09:00 and the
  identifiers \<open>a\<close> and \<open>b\<close>, one that starts at 08:00 and one that starts at 10:00.
\<close>

definition march10 :: iso_date where
  "march10 = days_from_civil 2024 3 10"

definition tieA :: entry where
  "tieA = sampleEntry ''a'' ''none'' march10 (Date_parse march10 + 9 * 3600000) (Some []) None None"

definition tieB :: entry where
  "tieB = sampleEntry ''b'' ''none'' march10 (Date_parse march10 + 9 * 3600000) (Some []) None None"

definition early :: entry where
  "early = sampleEntry ''x'' ''none'' march10 (Date_parse march10 + 8 * 3600000) (Some []) None None"

definition late :: entry where
  "late = sampleEntry ''y'' ''none'' march10 (Date_parse march10 + 10 * 3600000) (Some []) None None"

text \<open>
  The order that the specification asks for on ties, in its words: of two occurrences with
  the same start instant, the one listed first has the smaller identifier.
\<close>

definition idAscendingOnTies :: "entry list \<Rightarrow> bool" where
  "idAscendingOnTies out =
     sorted_wrt (\<lambda>a b. startDateTimeUTC a \<noteq> startDateTimeUTC b \<or> entry_id a \<le> entry_id b) out"

text \<open>
  C2, as the code has it. The list of a date is sorted by the start instant, in the shared
  view and (when the callback completes) in the main view. The comparator compares
  nothing but the start instants and the sort is stable: the entries with one and the same
  start instant \<open>k\<close> keep the order in which the snapshot delivered them. No identifier is
  compared.
\<close>

theorem C2_sorted_by_start_stable:
  "sorted (map startDateTimeUTC (filteredEntries tza sharedDate allEntries)) \<and>
   filter (\<lambda>e. startDateTimeUTC e = k) (filteredEntries tza sharedDate allEntries) =
     filter (\<lambda>e. startDateTimeUTC e = k) (filter (sharedFilter tza sharedDate) allEntries) \<and>
   (onSnapshot tza currentMonth selectedDate allEntries = Inr r \<longrightarrow>
      sorted (map startDateTimeUTC (scheduleEntries r)) \<and>
      filter (\<lambda>e. startDateTimeUTC e = k) (scheduleEntries r) =
        filter (\<lambda>e. startDateTimeUTC e = k) (filter (isForSelectedDate tza selectedDate) allEntries))"
  by (simp add: filteredEntries_def sorted_sortByStart sortByStart_stable onSnapshot_scheduleEntries)

text \<open>
  C2 as stated fails: the snapshot delivers \<open>b\<close> before \<open>a\<close>, both start at 09:00, and the
  list shows \<open>b\<close> before \<open>a\<close>.
\<close>

theorem C2_ties_not_by_id:
  "\<not> idAscendingOnTies (filteredEntries 0 (Date_parse march10) [tieB, tieA])"
  by code_simp

text \<open>The theorem of C2 at the snapshot \<open>b\<close>, 08:00, \<open>a\<close>.\<close>

theorem C2_witness:
  "sorted (map startDateTimeUTC (filteredEntries 0 (Date_parse march10) [tieB, early, tieA])) \<and>
   filter (\<lambda>e. startDateTimeUTC e = startDateTimeUTC tieA)
       (filteredEntries 0 (Date_parse march10) [tieB, early, tieA]) =
     filter (\<lambda>e. startDateTimeUTC e = startDateTimeUTC tieA)
       (filter (sharedFilter 0 (Date_parse march10)) [tieB, early, tieA]) \<and>
   sorted (map startDateTimeUTC [early, tieB, tieA]) \<and>
   filter (\<lambda>e. startDateTimeUTC e = startDateTimeUTC tieA) [early, tieB, tieA] =
     filter (\<lambda>e. startDateTimeUTC e = startDateTimeUTC tieA)
       (filter (isForSelectedDate 0 (Date_parse march10)) [tieB, early, tieA])"
proof -
  have run: "onSnapshot 0 (Date_parse march10) (Date_parse march10) [tieB, early, tieA] =
      Inr \<lparr>monthlyScheduleData = [(march10, ''#ff0000'')], scheduleEntries = [early, tieB, tieA]\<rparr>"
    by code_simp
  from C2_sorted_by_start_stable [of 0 "Date_parse march10" "[tieB, early, tieA]"
      "startDateTimeUTC tieA" "Date_parse march10" "Date_parse march10"
      "\<lparr>monthlyScheduleData = [(march10, ''#ff0000'')], scheduleEntries = [early, tieB, tieA]\<rparr>"] run
  show ?thesis
    by simp
qed

text \<open>
  C3, as the code has it. The functions are pure, so the same collection gives the same
  list. For two snapshots that hold the same entries in different orders, the two lists
  hold the same entries and the same sequence of start instants; they are the same list
  when the entries of the date have pairwise different start instants.
\<close>

theorem C3_order_independent_up_to_ties:
  assumes "mset allEntries = mset allEntries'"
  shows "mset (filteredEntries tza sharedDate allEntries) = mset (filteredEntries tza sharedDate allEntries') \<and>
    map startDateTimeUTC (filteredEntries tza sharedDate allEntries) =
      map startDateTimeUTC (filteredEntries tza sharedDate allEntries') \<and>
    (distinct (map startDateTimeUTC (filter (sharedFilter tza sharedDate) allEntries)) \<longrightarrow>
       filteredEntries tza sharedDate allEntries = filteredEntries tza sharedDate allEntries') \<and>
    (onSnapshot tza currentMonth selectedDate allEntries = Inr r \<and>
     onSnapshot tza currentMonth selectedDate allEntries' = Inr r' \<longrightarrow>
       mset (scheduleEntries r) = mset (scheduleEntries r') \<and>
       map startDateTimeUTC (scheduleEntries r) = map startDateTimeUTC (scheduleEntries r') \<and>
       (distinct (map startDateTimeUTC (filter (isForSelectedDate tza selectedDate) allEntries)) \<longrightarrow>
          scheduleEntries r = scheduleEntries r'))"
proof -
  have perm: "mset (filter P allEntries) = mset (filter P allEntries')" for P
    using assms by simp
  have general: "mset (sortByStart (filter P allEntries)) = mset (sortByStart (filter P allEntries')) \<and>
      map startDateTimeUTC (sortByStart (filter P allEntries)) =
        map startDateTimeUTC (sortByStart (filter P allEntries')) \<and>
      (distinct (map startDateTimeUTC (filter P allEntries)) \<longrightarrow>
         sortByStart (filter P allEntries) = sortByStart (filter P allEntries'))" for P
    using perm [of P] starts_sortByStart_perm [OF perm [of P]]
      sortByStart_perm_distinct [OF perm [of P]]
    by (simp add: mset_sortByStart)
  show ?thesis
    using general [of "sharedFilter tza sharedDate"] general [of "isForSelectedDate tza selectedDate"]
    by (auto simp: filteredEntries_def dest!: onSnapshot_scheduleEntries)
qed

text \<open>
  C3 as stated fails: the snapshots \<open>a\<close>, \<open>b\<close> and \<open>b\<close>, \<open>a\<close> hold the same entries and give
  different lists.
\<close>

theorem C3_permutation_changes_output:
  "mset [tieA, tieB] = mset [tieB, tieA] \<and>
   filteredEntries 0 (Date_parse march10) [tieA, tieB] \<noteq> filteredEntries 0 (Date_parse march10) [tieB, tieA]"
proof
  show "mset [tieA, tieB] = mset [tieB, tieA]"
    by (simp add: add_mset_commute)
  show "filteredEntries 0 (Date_parse march10) [tieA, tieB] \<noteq> filteredEntries 0 (Date_parse march10) [tieB, tieA]"
    by code_simp
qed

text \<open>The theorem of C3 at the snapshots 10:00, 08:00 and 08:00, 10:00.\<close>

theorem C3_witness:
  "mset (filteredEntries 0 (Date_parse march10) [late, early]) =
     mset (filteredEntries 0 (Date_parse march10) [early, late]) \<and>
   map startDateTimeUTC (filteredEntries 0 (Date_parse march10) [late, early]) =
     map startDateTimeUTC (filteredEntries 0 (Date_parse march10) [early, late]) \<and>
   filteredEntries 0 (Date_parse march10) [late, early] =
     filteredEntries 0 (Date_parse march10) [early, late] \<and>
   mset [early, late] = mset [early, late] \<and>
   map startDateTimeUTC [early, late] = map startDateTimeUTC [early, late] \<and>
   [early, late] = [early, late]"
proof -
  have perm: "mset [late, early] = mset [early, late]"
    by (simp add: add_mset_commute)
  have d1: "distinct (map startDateTimeUTC (filter (sharedFilter 0 (Date_parse march10)) [late, early]))"
    by code_simp
  have d2: "distinct (map startDateTimeUTC (filter (isForSelectedDate 0 (Date_parse march10)) [late, early]))"
    by code_simp
  have run1: "onSnapshot 0 (Date_parse march10) (Date_parse march10) [late, early] =
      Inr \<lparr>monthlyScheduleData = [(march10, ''#ff0000'')], scheduleEntries = [early, late]\<rparr>"
    by code_simp
  have run2: "onSnapshot 0 (Date_parse march10) (Date_parse march10) [early, late] =
      Inr \<lparr>monthlyScheduleData = [(march10, ''#ff0000'')], scheduleEntries = [early, late]\<rparr>"
    by code_simp
  from C3_order_independent_up_to_ties [OF perm, of 0 "Date_parse march10" "Date_parse march10"
      "Date_parse march10"
      "\<lparr>monthlyScheduleData = [(march10, ''#ff0000'')], scheduleEntries = [early, late]\<rparr>"
      "\<lparr>monthlyScheduleData = [(march10, ''#ff0000'')], scheduleEntries = [early, late]\<rparr>"]
    d1 d2 run1 run2
  show ?thesis
    by simp
qed

section \<open>Weekly entries without weekdays in the list of a date (C9)\<close>

text \<open>
  Two \<^verbatim>\<open>'weekly'\<close> entries from 2024-03-01 on, one without the field \<^verbatim>\<open>recurrenceDays\<close> and
  one with an empty list.
\<close>

definition weeklyNoDays :: entry where
  "weeklyNoDays = sampleEntry ''w'' ''weekly'' march10 (Date_parse march10 + 9 * 3600000) None
     (Some (days_from_civil 2024 3 1)) None"

definition weeklyEmptyDays :: entry where
  "weeklyEmptyDays = sampleEntry ''v'' ''weekly'' march10 (Date_parse march10 + 9 * 3600000) (Some [])
     (Some (days_from_civil 2024 3 1)) None"

text \<open>
  C9. The test for the selected date guards the call of \<^verbatim>\<open>includes\<close> with
  \<^verbatim>\<open>entry.recurrenceDays &&\<close>, so it is a total function to \<open>bool\<close> and raises nothing. A
  \<^verbatim>\<open>'weekly'\<close> entry whose \<^verbatim>\<open>recurrenceDays\<close> is missing or empty passes it for no date: it is
  not in the list of the shared view, and not in the list of the main view when the
  callback completes.
\<close>

theorem C9_weekly_without_days_never_listed:
  assumes "recurrenceType entry = ''weekly''"
    and "recurrenceDays entry = None \<or> recurrenceDays entry = Some []"
  shows "\<not> isForSelectedDate tza selectedDate entry \<and>
    \<not> sharedFilter tza selectedDate entry \<and>
    entry \<notin> set (filteredEntries tza selectedDate allEntries) \<and>
    (onSnapshot tza currentMonth selectedDate allEntries = Inr r \<longrightarrow> entry \<notin> set (scheduleEntries r))"
proof -
  from assms have no: "\<not> isForSelectedDate tza selectedDate entry"
    by (auto simp: isForSelectedDate_def isOneTime_def isDailyRecurring_def isWeeklyRecurring_def)
  then have "entry \<notin> set (sortByStart (filter (isForSelectedDate tza selectedDate) allEntries))"
    by (simp add: sortByStart_def)
  moreover have "sharedFilter tza selectedDate = isForSelectedDate tza selectedDate"
    by (rule ext) (rule sharedFilter_eq)
  ultimately show ?thesis
    using no by (auto simp: filteredEntries_def dest!: onSnapshot_scheduleEntries)
qed

text \<open>The theorem of C9 at the two entries, on 2024-03-10.\<close>

theorem C9_witness:
  "\<not> isForSelectedDate 0 (Date_parse march10) weeklyEmptyDays \<and>
   \<not> sharedFilter 0 (Date_parse march10) weeklyEmptyDays \<and>
   weeklyEmptyDays \<notin> set (filteredEntries 0 (Date_parse march10) [weeklyEmptyDays, early]) \<and>
   weeklyEmptyDays \<notin> set [early] \<and>
   weeklyNoDays \<notin> set (filteredEntries 0 (Date_parse march10) [weeklyNoDays, early])"
proof -
  have ty: "recurrenceType weeklyEmptyDays = ''weekly''" "recurrenceType weeklyNoDays = ''weekly''"
    by (simp_all add: weeklyEmptyDays_def weeklyNoDays_def sampleEntry_def)
  have ds: "recurrenceDays weeklyEmptyDays = None \<or> recurrenceDays weeklyEmptyDays = Some []"
    "recurrenceDays weeklyNoDays = None \<or> recurrenceDays weeklyNoDays = Some []"
    by (simp_all add: weeklyEmptyDays_def weeklyNoDays_def sampleEntry_def)
  have run: "onSnapshot 0 (Date_parse march10) (Date_parse march10) [weeklyEmptyDays, early] =
      Inr \<lparr>monthlyScheduleData = [(march10, ''#ff0000'')], scheduleEntries = [early]\<rparr>"
    by code_simp
  from C9_weekly_without_days_never_listed [OF ty(1) ds(1), of 0 "Date_parse march10"
      "[weeklyEmptyDays, early]" "Date_parse march10"
      "\<lparr>monthlyScheduleData = [(march10, ''#ff0000'')], scheduleEntries = [early]\<rparr>"]
    C9_weekly_without_days_never_listed [OF ty(2) ds(2), of 0 "Date_parse march10"
      "[weeklyNoDays, early]"] run
  show ?thesis
    by simp
qed

section \<open>One-time entries (C5)\<close>





text \<open>
  The indicators of the month take a one-time entry by its \<^verbatim>\<open>date\<close> alone: that part of the
  callback does not look at the window fields of a \<^verbatim>\<open>'none'\<close> entry.
\<close>

lemma populateMonth_one_time:
  assumes "recurrenceType entry = ''none''"
  shows "populateMonth tza currentMonth entry dwa =
    Inr (if getMonth tza (Date_parse (date entry)) = getMonth tza currentMonth \<and>
            getFullYear tza (Date_parse (date entry)) = getFullYear tza currentMonth
         then AList.update (date entry) (activityColor entry) dwa else dwa)"
  using assms by (simp add: populateMonth_def isRelevantForMonth_def)




section \<open>Recurring entries and the zone of the runtime (C4, C6)\<close>

text \<open>
  A recurring entry is listed for the selected date when the window test passes (and, for
  a weekly entry, the local weekday is one of its days). In terms of calendar days, with
  \<open>Day (t + tza)\<close> the local day of the selected date: the window is inclusive at both ends
  when the zone of the runtime is UTC; east of UTC the start date itself is left out; west
  of UTC the end date itself is left out.
\<close>

lemma isForSelectedDate_daily:
  "recurrenceType entry = ''daily'' \<Longrightarrow>
     isForSelectedDate tza t entry \<longleftrightarrow> isDateWithinRecurrenceRange tza entry t"
  by (simp add: isForSelectedDate_def isDailyRecurring_def)

lemma isForSelectedDate_weekly:
  "recurrenceType entry = ''weekly'' \<Longrightarrow> recurrenceDays entry = Some days \<Longrightarrow>
     isForSelectedDate tza t entry \<longleftrightarrow>
       isDateWithinRecurrenceRange tza entry t \<and> getDay tza t \<in> set days"
  by (simp add: isForSelectedDate_def isDailyRecurring_def isWeeklyRecurring_def isOneTime_def)

lemma daily_listed_iff:
  assumes "recurrenceType entry = ''daily''" "0 \<le> t + tza" "- msPerDay < tza" "tza < msPerDay"
  shows "isForSelectedDate tza t entry \<longleftrightarrow>
    (case recurrenceStartDate entry of None \<Rightarrow> True
     | Some s \<Rightarrow> if 0 < tza then s < Day (t + tza) else s \<le> Day (t + tza)) \<and>
    (case recurrenceEndDate entry of None \<Rightarrow> True
     | Some e \<Rightarrow> if tza < 0 then Day (t + tza) < e else Day (t + tza) \<le> e)"
  unfolding isForSelectedDate_daily [OF assms(1)]
  by (rule isDateWithinRecurrenceRange_iff [OF assms(2-4)])

lemma weekly_listed_iff:
  assumes "recurrenceType entry = ''weekly''" "recurrenceDays entry = Some days"
    "0 \<le> t + tza" "- msPerDay < tza" "tza < msPerDay"
  shows "isForSelectedDate tza t entry \<longleftrightarrow>
    ((case recurrenceStartDate entry of None \<Rightarrow> True
      | Some s \<Rightarrow> if 0 < tza then s < Day (t + tza) else s \<le> Day (t + tza)) \<and>
     (case recurrenceEndDate entry of None \<Rightarrow> True
      | Some e \<Rightarrow> if tza < 0 then Day (t + tza) < e else Day (t + tza) \<le> e)) \<and>
    WeekDay (t + tza) \<in> set days"
  unfolding isForSelectedDate_weekly [OF assms(1,2)] isDateWithinRecurrenceRange_iff [OF assms(3-5)]
    getDay_def LocalTime_def ..

text \<open>With the runtime in UTC the window is inclusive at both ends.\<close>

lemma daily_listed_in_UTC:
  assumes "recurrenceType entry = ''daily''" "0 \<le> t"
  shows "isForSelectedDate 0 t entry \<longleftrightarrow>
    (case recurrenceStartDate entry of None \<Rightarrow> True | Some s \<Rightarrow> s \<le> Day t) \<and>
    (case recurrenceEndDate entry of None \<Rightarrow> True | Some e \<Rightarrow> Day t \<le> e)"
  using daily_listed_iff [of entry t 0] assms
  by (simp add: msPerDay_def split: option.splits)

lemma weekly_listed_in_UTC:
  assumes "recurrenceType entry = ''weekly''" "recurrenceDays entry = Some days" "0 \<le> t"
  shows "isForSelectedDate 0 t entry \<longleftrightarrow>
    ((case recurrenceStartDate entry of None \<Rightarrow> True | Some s \<Rightarrow> s \<le> Day t) \<and>
     (case recurrenceEndDate entry of None \<Rightarrow> True | Some e \<Rightarrow> Day t \<le> e)) \<and>
    WeekDay t \<in> set days"
  using weekly_listed_iff [of entry days t 0] assms
  by (simp add: msPerDay_def split: option.splits)

text \<open>A daily entry from 2024-03-01 on, with no end date.\<close>

definition dailyFromMarch1 :: entry where
  "dailyFromMarch1 = sampleEntry ''d'' ''daily'' (days_from_civil 2024 3 1)
     (Date_parse march10 + 9 * 3600000) (Some []) (Some (days_from_civil 2024 3 1)) None"

text \<open>
  C4 at an input where the code departs from it. The runtime is in Asia/Tokyo and the
  selected date is \<^verbatim>\<open>new Date(2024, 2, 1)\<close>, 1 March 2024, the start date of the daily
  entry. \<^verbatim>\<open>dateOnly\<close> is 2024-02-29T15:00Z, before \<^verbatim>\<open>new Date('2024-03-01')\<close>, and the entry is
  not listed on its start date, in the main view and in the shared view of 2024-03-01.
\<close>

theorem C4_start_date_not_matched_east_of_UTC:
  "getFullYear tokyo (Date_ymd tokyo 2024 2 1) = 2024 \<and>
   getMonth tokyo (Date_ymd tokyo 2024 2 1) = 2 \<and>
   getDate tokyo (Date_ymd tokyo 2024 2 1) = 1 \<and>
   recurrenceType dailyFromMarch1 = ''daily'' \<and>
   recurrenceStartDate dailyFromMarch1 = Some (days_from_civil 2024 3 1) \<and>
   recurrenceEndDate dailyFromMarch1 = None \<and>
   \<not> isForSelectedDate tokyo (Date_ymd tokyo 2024 2 1) dailyFromMarch1 \<and>
   \<not> sharedFilter tokyo (Date_parse (days_from_civil 2024 3 1)) dailyFromMarch1"
  by code_simp

text \<open>A weekly entry on Sundays, from 2024-03-01 to 2024-03-31 (a Sunday).\<close>

definition sundaysInMarch :: entry where
  "sundaysInMarch = sampleEntry ''s'' ''weekly'' (days_from_civil 2024 3 1)
     (Date_parse march10 + 9 * 3600000) (Some [0])
     (Some (days_from_civil 2024 3 1)) (Some (days_from_civil 2024 3 31))"

text \<open>
  C6 at an input where the code departs from it. The runtime is in Pacific/Honolulu and
  the selected date is \<^verbatim>\<open>new Date(2024, 2, 31)\<close>, Sunday 31 March 2024, the end date of the
  weekly entry. \<^verbatim>\<open>dateOnly\<close> is 2024-03-31T10:00Z, after \<^verbatim>\<open>new Date('2024-03-31')\<close>, and the
  entry is not listed on its end date.
\<close>

theorem C6_end_date_not_matched_west_of_UTC:
  "getFullYear honolulu (Date_ymd honolulu 2024 2 31) = 2024 \<and>
   getMonth honolulu (Date_ymd honolulu 2024 2 31) = 2 \<and>
   getDate honolulu (Date_ymd honolulu 2024 2 31) = 31 \<and>
   getDay honolulu (Date_ymd honolulu 2024 2 31) = 0 \<and>
   recurrenceType sundaysInMarch = ''weekly'' \<and>
   recurrenceDays sundaysInMarch = Some [0] \<and>
   recurrenceEndDate sundaysInMarch = Some (days_from_civil 2024 3 31) \<and>
   \<not> isForSelectedDate honolulu (Date_ymd honolulu 2024 2 31) sundaysInMarch"
  by code_simp

section \<open>The indicators of a month (C1, C8)\<close>

text \<open>
  A daily entry over the whole of March 2024. In UTC the callback gives an indicator for
  each of the 31 days of March, and none for April.
\<close>

definition dailyAllMarch :: entry where
  "dailyAllMarch = sampleEntry ''n'' ''daily'' (days_from_civil 2024 3 1)
     (Date_parse march10 + 9 * 3600000) (Some [])
     (Some (days_from_civil 2024 3 1)) (Some (days_from_civil 2024 3 31))"

lemma month_of_daily_entry_in_UTC:
  "onSnapshot 0 (Date_ymd 0 2024 2 1) (Date_ymd 0 2024 2 10) [dailyAllMarch] =
     Inr \<lparr>monthlyScheduleData =
            map (\<lambda>d. (d, ''#ff0000'')) [days_from_civil 2024 3 1 ..days_from_civil 2024 3 31],
          scheduleEntries = [dailyAllMarch]\<rparr> \<and>
   onSnapshot 0 (Date_ymd 0 2024 3 1) (Date_ymd 0 2024 3 10) [dailyAllMarch] =
     Inr \<lparr>monthlyScheduleData = [], scheduleEntries = []\<rparr>"
  by code_simp

text \<open>A daily entry from 2024-03-10 to 2024-03-20.\<close>

definition midMarchDaily :: entry where
  "midMarchDaily = sampleEntry ''m'' ''daily'' march10 (Date_parse march10 + 9 * 3600000) (Some [])
     (Some (days_from_civil 2024 3 10)) (Some (days_from_civil 2024 3 20))"

text \<open>
  C1 at an input where the code departs from it, in UTC. The month is March 2024 and the
  selected date 2024-03-15. The window of the daily entry lies inside the month: the first
  day of the month is before the window, the last day after it, and the month does not lie
  inside the window, so \<^verbatim>\<open>isRelevantForMonth\<close> is false and the loop over the days is never
  entered. The entry is listed for 2024-03-15, and the month has no indicator at all.
\<close>

theorem C1_window_inside_month_has_no_indicator:
  "\<not> isRelevantForMonth 0 midMarchDaily (Date_ymd 0 2024 2 1) \<and>
   onSnapshot 0 (Date_ymd 0 2024 2 1) (Date_ymd 0 2024 2 15) [midMarchDaily] =
     Inr \<lparr>monthlyScheduleData = [], scheduleEntries = [midMarchDaily]\<rparr>"
  by code_simp

text \<open>
  C8 at an input where the code departs from it, in UTC. With the one-time entry alone the
  callback gives the indicator and the list of 2024-03-10. With the weekly entry that has
  no \<^verbatim>\<open>recurrenceDays\<close> in the snapshot, before or after it, the loop over the days calls
  \<^verbatim>\<open>includes\<close> on \<^verbatim>\<open>undefined\<close>: the callback ends with a \<^verbatim>\<open>TypeError\<close> and sets neither the
  indicators nor the list.
\<close>

theorem C8_missing_recurrenceDays_aborts_aggregation:
  "onSnapshot 0 (Date_ymd 0 2024 2 1) (Date_ymd 0 2024 2 10) [early] =
     Inr \<lparr>monthlyScheduleData = [(march10, ''#ff0000'')], scheduleEntries = [early]\<rparr> \<and>
   onSnapshot 0 (Date_ymd 0 2024 2 1) (Date_ymd 0 2024 2 10) [weeklyNoDays, early] = Inl TypeError \<and>
   onSnapshot 0 (Date_ymd 0 2024 2 1) (Date_ymd 0 2024 2 10) [early, weeklyNoDays] = Inl TypeError"
  by code_simp

section \<open>Validation at creation (C7, C10)\<close>

text \<open>
  The conditions of the specification on a schedule entry, in its words: the start instant
  is strictly before the end instant; a recurring entry has a recurrence start date; when
  both recurrence dates are present the start is not after the end; a weekly entry has a
  non-empty set of weekdays. They are read on the entry that is about to be stored.
\<close>

definition validEntry :: "schedule_doc \<Rightarrow> bool" where
  "validEntry doc =
     (startDateTimeUTC doc < endDateTimeUTC doc \<and>
      (recurrenceType doc \<noteq> ''none'' \<longrightarrow> recurrenceStartDate doc \<noteq> None) \<and>
      (case (recurrenceStartDate doc, recurrenceEndDate doc) of
         (Some s, Some e) \<Rightarrow> s \<le> e
       | _ \<Rightarrow> True) \<and>
      (recurrenceType doc = ''weekly'' \<longrightarrow>
         recurrenceDays doc \<noteq> None \<and> recurrenceDays doc \<noteq> Some []))"

text \<open>The messages of the handler that report one of these conditions.\<close>

definition validationErrors :: "string list" where
  "validationErrors =
     [''End time must be after start time.'',
      ''Please provide a start date for the repeating schedule.'',
      ''Recurrence end date cannot be before start date.'',
      ''Please select at least one day for weekly recurrence.'']"

text \<open>
  Sample inputs: one activity, the times 09:00 and 10:00, and three states of the
  recurrence inputs. \<open>formE\<close> is a daily recurrence from 2024-03-20 to 2024-03-10, \<open>formV\<close> a
  weekly recurrence on Mondays and Wednesdays in March 2024, and \<open>formN\<close> no recurrence,
  with weekdays and dates left in the inputs.
\<close>

definition gym :: activity_item where
  "gym = \<lparr>item_id = ''a1'', name = ''Gym'', color = ''#ff0000''\<rparr>"

definition sampleForm :: "string \<Rightarrow> int list \<Rightarrow> iso_date option \<Rightarrow> iso_date option \<Rightarrow> form" where
  "sampleForm ty ds s e =
     \<lparr>newScheduleActivityId = ''a1'', newScheduleStartTime = Some 540, newScheduleEndTime = Some 600,
      newScheduleRecurrenceType = ty, newScheduleRecurrenceDays = ds,
      newScheduleRecurrenceStartDate = s, newScheduleRecurrenceEndDate = e,
      activityItems = [gym]\<rparr>"

definition formE :: form where
  "formE = sampleForm ''daily'' [] (Some (days_from_civil 2024 3 20)) (Some (days_from_civil 2024 3 10))"

definition formV :: form where
  "formV = sampleForm ''weekly'' [1, 3] (Some (days_from_civil 2024 3 1)) (Some (days_from_civil 2024 3 31))"

definition formN :: form where
  "formN = sampleForm ''none'' [1, 3] (Some (days_from_civil 2024 3 20)) (Some (days_from_civil 2024 3 10))"

text \<open>
  The handler on complete and on incomplete input, the messages of the recurrence checks,
  and the conditions of the specification on the document that the handler builds.
\<close>

lemma handleAddScheduleEntry_complete_input:
  assumes "newScheduleStartTime f = Some startTime" "newScheduleEndTime f = Some endTime"
    "newScheduleActivityId f \<noteq> []"
  shows "handleAddScheduleEntry tza now db uid (Some sel) f =
    (if Date_parse_local tza (toISODate sel) startTime \<ge> Date_parse_local tza (toISODate sel) endTime
     then Inl ''End time must be after start time.''
     else
       (case recurrenceError f of
          Some msg \<Rightarrow> Inl msg
        | None \<Rightarrow>
            (case find (\<lambda>item. item_id item = newScheduleActivityId f) (activityItems f) of
               None \<Rightarrow> Inl ''Selected activity not found.''
             | Some selectedActivity \<Rightarrow>
                 (case uid of
                    None \<Rightarrow> Inr None
                  | Some u \<Rightarrow>
                      if db \<and> u \<noteq> []
                      then Inr (Some (newDoc tza now u sel startTime endTime selectedActivity f))
                      else Inr None))))"
  using assms by (simp add: handleAddScheduleEntry_def)

lemma handleAddScheduleEntry_incomplete_input:
  assumes "selectedDate = None \<or> newScheduleStartTime f = None \<or> newScheduleEndTime f = None \<or>
    newScheduleActivityId f = []"
  shows "handleAddScheduleEntry tza now db uid selectedDate f =
    Inl ''Please select a date, activity, start time, and end time.''"
  using assms by (auto simp: handleAddScheduleEntry_def split: option.splits)

lemma recurrenceError_messages:
  "recurrenceError f = Some msg \<Longrightarrow> msg \<in> set validationErrors"
  by (auto simp: recurrenceError_def validationErrors_def split: if_splits option.splits)

lemma validEntry_newDoc:
  "validEntry (newDoc tza now u sel startTime endTime act f) \<longleftrightarrow>
     Date_parse_local tza (toISODate sel) startTime < Date_parse_local tza (toISODate sel) endTime \<and>
     recurrenceError f = None"
  by (auto simp: validEntry_def newDoc_def recurrenceError_def Date_parse_def msPerDay_def
      split: option.splits)

lemma not_validation_error:
  "''Selected activity not found.'' \<notin> set validationErrors"
  by (simp add: validationErrors_def)

lemma stored_doc_valid:
  assumes "handleAddScheduleEntry tza now db uid selectedDate f = Inr (Some doc)"
  shows "validEntry doc"
proof -
  from assms obtain u sel startTime endTime act where
    doc: "doc = newDoc tza now u sel startTime endTime act f" and
    "\<not> Date_parse_local tza (toISODate sel) startTime \<ge> Date_parse_local tza (toISODate sel) endTime" and
    "recurrenceError f = None"
    by (auto simp: handleAddScheduleEntry_def split: option.splits if_splits)
  then show ?thesis
    by (simp add: validEntry_newDoc)
qed

text \<open>
  C7. On complete input (date, activity and both times present), for the entry
  \<open>newDoc \<dots>\<close> that the inputs describe: when it violates one of the conditions the handler
  ends with one of the validation messages and stores nothing; when it satisfies all of
  them the handler gives none of the validation messages, and with the activity found and
  the database and user present it stores exactly that entry.
\<close>

theorem C7_validation_gate:
  assumes "newScheduleStartTime f = Some startTime" "newScheduleEndTime f = Some endTime"
    "newScheduleActivityId f \<noteq> []"
  shows "(\<not> validEntry (newDoc tza now u sel startTime endTime act f) \<longrightarrow>
      (\<exists>msg \<in> set validationErrors. handleAddScheduleEntry tza now db uid (Some sel) f = Inl msg)) \<and>
    (validEntry (newDoc tza now u sel startTime endTime act f) \<longrightarrow>
      (\<forall>msg \<in> set validationErrors. handleAddScheduleEntry tza now db uid (Some sel) f \<noteq> Inl msg) \<and>
      (find (\<lambda>item. item_id item = newScheduleActivityId f) (activityItems f) = Some act \<and>
       db \<and> uid = Some u \<and> u \<noteq> [] \<longrightarrow>
         handleAddScheduleEntry tza now db uid (Some sel) f =
           Inr (Some (newDoc tza now u sel startTime endTime act f))))"
proof (intro conjI impI)
  assume "\<not> validEntry (newDoc tza now u sel startTime endTime act f)"
  then consider
    "Date_parse_local tza (toISODate sel) startTime \<ge> Date_parse_local tza (toISODate sel) endTime"
    | msg where "Date_parse_local tza (toISODate sel) startTime < Date_parse_local tza (toISODate sel) endTime"
      "recurrenceError f = Some msg"
    unfolding validEntry_newDoc by fastforce
  then show "\<exists>msg \<in> set validationErrors. handleAddScheduleEntry tza now db uid (Some sel) f = Inl msg"
  proof cases
    case 1
    then show ?thesis
      unfolding handleAddScheduleEntry_complete_input [OF assms]
      by (simp add: validationErrors_def)
  next
    case 2
    then show ?thesis
      unfolding handleAddScheduleEntry_complete_input [OF assms]
      using recurrenceError_messages [of f msg] by simp
  qed
next
  assume valid: "validEntry (newDoc tza now u sel startTime endTime act f)"
  then have ok: "\<not> Date_parse_local tza (toISODate sel) startTime \<ge> Date_parse_local tza (toISODate sel) endTime"
    "recurrenceError f = None"
    unfolding validEntry_newDoc by simp_all
  show "\<forall>msg \<in> set validationErrors. handleAddScheduleEntry tza now db uid (Some sel) f \<noteq> Inl msg"
    unfolding handleAddScheduleEntry_complete_input [OF assms]
    using ok not_validation_error by (auto split: option.splits)
  assume "find (\<lambda>item. item_id item = newScheduleActivityId f) (activityItems f) = Some act \<and>
       db \<and> uid = Some u \<and> u \<noteq> []"
  then show "handleAddScheduleEntry tza now db uid (Some sel) f =
           Inr (Some (newDoc tza now u sel startTime endTime act f))"
    unfolding handleAddScheduleEntry_complete_input [OF assms]
    using ok by simp
qed

text \<open>
  The theorem of C7 at \<open>formE\<close>, whose recurrence start date is after its end date and which
  is rejected with the message for that condition, and at \<open>formV\<close>, which is stored.
\<close>

theorem C7_witness:
  "\<not> validEntry (newDoc 0 0 ''u1'' (Date_ymd 0 2024 2 10) 540 600 gym formE) \<and>
   (\<exists>msg \<in> set validationErrors.
      handleAddScheduleEntry 0 0 True (Some ''u1'') (Some (Date_ymd 0 2024 2 10)) formE = Inl msg) \<and>
   handleAddScheduleEntry 0 0 True (Some ''u1'') (Some (Date_ymd 0 2024 2 10)) formE =
     Inl ''Recurrence end date cannot be before start date.'' \<and>
   validEntry (newDoc 0 0 ''u1'' (Date_ymd 0 2024 2 10) 540 600 gym formV) \<and>
   handleAddScheduleEntry 0 0 True (Some ''u1'') (Some (Date_ymd 0 2024 2 10)) formV =
     Inr (Some (newDoc 0 0 ''u1'' (Date_ymd 0 2024 2 10) 540 600 gym formV))"
proof -
  have inE: "newScheduleStartTime formE = Some 540" "newScheduleEndTime formE = Some 600"
    "newScheduleActivityId formE \<noteq> []"
    by (simp_all add: formE_def sampleForm_def)
  have inV: "newScheduleStartTime formV = Some 540" "newScheduleEndTime formV = Some 600"
    "newScheduleActivityId formV \<noteq> []"
    by (simp_all add: formV_def sampleForm_def)
  have invalid: "\<not> validEntry (newDoc 0 0 ''u1'' (Date_ymd 0 2024 2 10) 540 600 gym formE)"
    by code_simp
  have valid: "validEntry (newDoc 0 0 ''u1'' (Date_ymd 0 2024 2 10) 540 600 gym formV)"
    by code_simp
  have found: "find (\<lambda>item. item_id item = newScheduleActivityId formV) (activityItems formV) = Some gym"
    by (simp add: formV_def sampleForm_def gym_def)
  have message: "handleAddScheduleEntry 0 0 True (Some ''u1'') (Some (Date_ymd 0 2024 2 10)) formE =
     Inl ''Recurrence end date cannot be before start date.''"
    by code_simp
  from C7_validation_gate [OF inE, of 0 0 "''u1''" "Date_ymd 0 2024 2 10" gym True "Some ''u1''"]
    C7_validation_gate [OF inV, of 0 0 "''u1''" "Date_ymd 0 2024 2 10" gym True "Some ''u1''"]
    invalid valid found message
  show ?thesis
    by simp
qed

text \<open>
  C10. A document that the handler stores with the recurrence type \<^verbatim>\<open>'none'\<close> has no
  recurrence start date, no recurrence end date and an empty list of weekdays; a document
  stored with a type other than \<^verbatim>\<open>'weekly'\<close> has an empty list of weekdays.
\<close>

theorem C10_stored_recurrence_fields:
  assumes "handleAddScheduleEntry tza now db uid selectedDate f = Inr (Some doc)"
  shows "(recurrenceType doc = ''none'' \<longrightarrow>
      recurrenceStartDate doc = None \<and> recurrenceEndDate doc = None \<and> recurrenceDays doc = Some []) \<and>
    (recurrenceType doc \<noteq> ''weekly'' \<longrightarrow> recurrenceDays doc = Some [])"
proof -
  from assms obtain u sel startTime endTime act where
    "doc = newDoc tza now u sel startTime endTime act f"
    by (auto simp: handleAddScheduleEntry_def split: option.splits if_splits)
  then show ?thesis
    by (simp add: newDoc_def)
qed

text \<open>
  The theorem of C10 at \<open>formN\<close>: the weekdays and dates left in the inputs are not stored.
\<close>

theorem C10_witness:
  "recurrenceType (newDoc 0 0 ''u1'' (Date_ymd 0 2024 2 10) 540 600 gym formN) = ''none'' \<and>
   recurrenceStartDate (newDoc 0 0 ''u1'' (Date_ymd 0 2024 2 10) 540 600 gym formN) = None \<and>
   recurrenceEndDate (newDoc 0 0 ''u1'' (Date_ymd 0 2024 2 10) 540 600 gym formN) = None \<and>
   recurrenceDays (newDoc 0 0 ''u1'' (Date_ymd 0 2024 2 10) 540 600 gym formN) = Some []"
proof -
  have stored: "handleAddScheduleEntry 0 0 True (Some ''u1'') (Some (Date_ymd 0 2024 2 10)) formN =
      Inr (Some (newDoc 0 0 ''u1'' (Date_ymd 0 2024 2 10) 540 600 gym formN))"
    by code_simp
  have ty: "recurrenceType (newDoc 0 0 ''u1'' (Date_ymd 0 2024 2 10) 540 600 gym formN) = ''none''"
    by (simp add: newDoc_def formN_def sampleForm_def)
  from C10_stored_recurrence_fields [OF stored] ty show ?thesis
    by simp
qed

end
